theory Spec2Isabelle
  imports Main "HOL-Library.Sublist" "HOL-Library.AList"
begin

section \<open>Exceptions\<close>

text \<open>
  The exceptions that the modelled part of \<^verbatim>\<open>frappe/bencher.py\<close> can raise.
  \<open>OSError\<close> stands for every failure of a file-system call (\<^verbatim>\<open>FileNotFoundError\<close>,
  \<^verbatim>\<open>NotADirectoryError\<close>, \<^verbatim>\<open>IsADirectoryError\<close>, \<^verbatim>\<open>FileExistsError\<close> are its
  subclasses). \<open>AttributeError\<close> and \<open>NameError\<close> are raised by the interpreter when an
  instance attribute or a module global is read before it was bound.
\<close>

datatype error =
    OSError
  | AttributeError
  | NameError
  | BenchNotScopedError
  | BenchSiteNotLoadedError

section \<open>The file system\<close>

text \<open>
  A directory tree. A directory lists its entries in the order \<^verbatim>\<open>iterdir\<close> yields them.
  A \<^verbatim>\<open>pathlib.Path\<close> is the list of its components below the root of the tree, and
  \<^verbatim>\<open>p.joinpath(n)\<close> is \<open>p @ [n]\<close>: names are single path components throughout.
\<close>

datatype node = File string | Dir "(string \<times> node) list"

type_synonym path = "string list"

fun child :: "node option \<Rightarrow> string \<Rightarrow> node option" where
  "child (Some (Dir es)) c = map_of es c"
| "child (Some (File t)) c = None"
| "child None c = None"

definition lookup :: "node \<Rightarrow> path \<Rightarrow> node option" where
  "lookup root p = foldl child (Some root) p"

definition path_name :: "path \<Rightarrow> string" where
  \<comment> \<open>\<^verbatim>\<open>Path.name\<close>: the last component\<close>
  "path_name p = (case rev p of [] \<Rightarrow> [] | n # _ \<Rightarrow> n)"

definition is_dir :: "node \<Rightarrow> path \<Rightarrow> bool" where
  "is_dir root p = (case lookup root p of Some (Dir es) \<Rightarrow> True | Some (File t) \<Rightarrow> False | None \<Rightarrow> False)"

definition path_exists :: "node \<Rightarrow> path \<Rightarrow> bool" where
  \<comment> \<open>\<^verbatim>\<open>Path.exists\<close>: an entry of any kind\<close>
  "path_exists root p = (case lookup root p of Some n \<Rightarrow> True | None \<Rightarrow> False)"

definition read_text :: "node \<Rightarrow> path \<Rightarrow> error + string" where
  "read_text root p =
     (case lookup root p of
        Some (File t) \<Rightarrow> Inr t
      | Some (Dir es) \<Rightarrow> Inl OSError
      | None \<Rightarrow> Inl OSError)"

definition iterdir :: "node \<Rightarrow> path \<Rightarrow> error + path list" where
  "iterdir root p =
     (case lookup root p of
        Some (Dir es) \<Rightarrow> Inr (map (\<lambda>e. p @ [fst e]) es)
      | Some (File t) \<Rightarrow> Inl OSError
      | None \<Rightarrow> Inl OSError)"

text \<open>
  \<^verbatim>\<open>Path.mkdir(parents=True, exist_ok=True)\<close>: missing directories along the path are
  created, an existing directory is accepted, a file in the way raises.
\<close>

fun chain :: "path \<Rightarrow> node" where
  "chain [] = Dir []"
| "chain (c # cs) = Dir [(c, chain cs)]"

fun mkdir_parents :: "node \<Rightarrow> path \<Rightarrow> error + node" where
  "mkdir_parents (File t) p = Inl OSError"
| "mkdir_parents (Dir es) [] = Inr (Dir es)"
| "mkdir_parents (Dir es) (c # cs) =
     (case map_of es c of
        None \<Rightarrow> Inr (Dir (es @ [(c, chain cs)]))
      | Some n \<Rightarrow>
          (case mkdir_parents n cs of
             Inl e \<Rightarrow> Inl e
           | Inr n' \<Rightarrow> Inr (Dir (AList.update c n' es))))"

section \<open>Strings\<close>

text \<open>
  \<^verbatim>\<open>x in text\<close> on strings is the contiguous-substring test, \<^const>\<open>sublist\<close>.
  \<^verbatim>\<open>str.title()\<close> upper-cases a letter that follows a non-letter (or starts the string)
  and lower-cases a letter that follows a letter; the model covers ASCII letters and
  leaves every other character as it is.
\<close>

definition ascii_lowercase :: string where
  "ascii_lowercase = ''abcdefghijklmnopqrstuvwxyz''"

definition ascii_uppercase :: string where
  "ascii_uppercase = ''ABCDEFGHIJKLMNOPQRSTUVWXYZ''"

definition is_cased :: "char \<Rightarrow> bool" where
  "is_cased c = (c \<in> set ascii_lowercase \<or> c \<in> set ascii_uppercase)"

definition to_upper :: "char \<Rightarrow> char" where
  "to_upper c = (case map_of (zip ascii_lowercase ascii_uppercase) c of Some u \<Rightarrow> u | None \<Rightarrow> c)"

definition to_lower :: "char \<Rightarrow> char" where
  "to_lower c = (case map_of (zip ascii_uppercase ascii_lowercase) c of Some l \<Rightarrow> l | None \<Rightarrow> c)"

fun title_from :: "bool \<Rightarrow> string \<Rightarrow> string" where
  "title_from previous_is_cased [] = []"
| "title_from previous_is_cased (c # cs) =
     (if previous_is_cased then to_lower c else to_upper c) # title_from (is_cased c) cs"

definition title :: "string \<Rightarrow> string" where
  "title s = title_from False s"

section \<open>Python dictionaries and instance attributes\<close>

text \<open>
  A \<^verbatim>\<open>dict\<close> keeps insertion order: an association list, where storing under a key
  that is present replaces the value in place and a new key goes to the end
  (\<^const>\<open>AList.update\<close>).

  The three caches of the file are instance attributes written as \<^verbatim>\<open>self.__apps\<close>,
  \<^verbatim>\<open>self.__modules\<close> and \<^verbatim>\<open>self.__sites\<close> inside a class body. Python rewrites an
  identifier of this form inside a class to \<^verbatim>\<open>_Class__name\<close> (the source itself spells
  \<^verbatim>\<open>"_Sites__sites"\<close> in \<^verbatim>\<open>Sites.__json__\<close>), whereas the string literal given to
  \<^verbatim>\<open>hasattr(self, "__sites")\<close> is an ordinary string and is looked up as it stands.
  To keep the two apart the model stores these attributes in a map from the attribute's
  run-time name to its value.
\<close>

type_synonym 'a dict = "(string \<times> 'a) list"

type_synonym 'a attrs = "string \<Rightarrow> 'a dict option"

definition hasattr :: "'a attrs \<Rightarrow> string \<Rightarrow> bool" where
  "hasattr a n = (case a n of Some d \<Rightarrow> True | None \<Rightarrow> False)"

section \<open>Components: \<^verbatim>\<open>FrappeComponent\<close>, \<^verbatim>\<open>Apps.App\<close>, \<^verbatim>\<open>Apps.App.Module\<close>\<close>

record module =
  Module_name :: string
  Module_path :: path
  Module_python_path :: path
  Module_app_python_path :: path  \<comment> \<open>\<^verbatim>\<open>self.app\<close>, of which only \<^verbatim>\<open>python_path\<close> is read\<close>

record app =
  App_name :: string
  App_path :: path
  App_python_path :: path
  App_attrs :: "module attrs"

record apps =
  Apps_path :: path
  Apps_attrs :: "app attrs"

text \<open>
  The constructors and \<^verbatim>\<open>__bool__\<close> are named \<open>App_init\<close>, \<open>Module_init\<close>,
  \<open>Apps_init\<close> and \<open>FrappeComponent_bool\<close>.
\<close>

definition App_init :: "string \<Rightarrow> path \<Rightarrow> app" where
  "App_init name p =
     \<lparr>App_name = name, App_path = p, App_python_path = p @ [name], App_attrs = (\<lambda>n. None)\<rparr>"

definition Module_init :: "string \<Rightarrow> path \<Rightarrow> app \<Rightarrow> module" where
  "Module_init name p a =
     \<lparr>Module_name = name, Module_path = p, Module_python_path = p,
      Module_app_python_path = App_python_path a\<rparr>"

definition Apps_init :: "path \<Rightarrow> apps" where
  "Apps_init p = \<lparr>Apps_path = p, Apps_attrs = (\<lambda>n. None)\<rparr>"

datatype component = AppC app | ModuleC module

definition is_frappe_component :: "node \<Rightarrow> path \<Rightarrow> bool" where
  \<comment> \<open>\<^verbatim>\<open>_is_frappe_component\<close>, on the component's \<^verbatim>\<open>python_path\<close>\<close>
  "is_frappe_component root python_path =
     (is_dir root python_path \<and> path_exists root (python_path @ [''.frappe'']))"

text \<open>
  \<^verbatim>\<open>_is_app_installed\<close> reads the module global \<^verbatim>\<open>_current_bench\<close>, which
  \<^verbatim>\<open>Bench.__init__\<close> binds; the argument \<open>current_bench\<close> is
  \<^verbatim>\<open>_current_bench.sites.path\<close>, or \<open>None\<close> while the global is unbound. The deprecation
  notice both legacy checks emit is an external call with no effect on the result.
\<close>

definition is_app_installed :: "node \<Rightarrow> path option \<Rightarrow> string \<Rightarrow> error + bool" where
  "is_app_installed root current_bench name =
     (case current_bench of
        None \<Rightarrow> Inl NameError
      | Some sites_path \<Rightarrow>
          (case read_text root (sites_path @ [''apps.txt'']) of
             Inl e \<Rightarrow> Inl e
           | Inr text \<Rightarrow> Inr (sublist name text)))"

definition is_module_registered :: "node \<Rightarrow> path \<Rightarrow> string \<Rightarrow> error + bool" where
  "is_module_registered root app_python_path name =
     (case read_text root (app_python_path @ [''modules.txt'']) of
        Inl e \<Rightarrow> Inl e
      | Inr text \<Rightarrow> Inr (sublist (title name) text))"

fun FrappeComponent_bool :: "node \<Rightarrow> path option \<Rightarrow> component \<Rightarrow> error + bool" where
  "FrappeComponent_bool root current_bench (AppC a) =
     (if is_frappe_component root (App_python_path a) then Inr True
      else is_app_installed root current_bench (App_name a))"
| "FrappeComponent_bool root current_bench (ModuleC m) =
     (if is_frappe_component root (Module_python_path m) then Inr True
      else is_module_registered root (Module_app_python_path m) (Module_name m))"

text \<open>
  The two dictionary comprehensions. The filter
  \<^verbatim>\<open>if d.is_dir() and (app := self.App(name=d.name, path=d))\<close> tests the truth value of
  the freshly built component, which is \<^verbatim>\<open>FrappeComponent.__bool__\<close>; an exception of
  that test ends the comprehension.
\<close>

fun scan_apps :: "node \<Rightarrow> path option \<Rightarrow> path list \<Rightarrow> app dict \<Rightarrow> error + app dict" where
  "scan_apps root current_bench [] acc = Inr acc"
| "scan_apps root current_bench (d # ds) acc =
     (if is_dir root d then
        (case FrappeComponent_bool root current_bench (AppC (App_init (path_name d) d)) of
           Inl e \<Rightarrow> Inl e
         | Inr b \<Rightarrow>
             scan_apps root current_bench ds
               (if b then AList.update (path_name d) (App_init (path_name d) d) acc else acc))
      else scan_apps root current_bench ds acc)"

fun scan_modules :: "node \<Rightarrow> app \<Rightarrow> path list \<Rightarrow> module dict \<Rightarrow> error + module dict" where
  "scan_modules root a [] acc = Inr acc"
| "scan_modules root a (d # ds) acc =
     (if is_dir root d then
        (case FrappeComponent_bool root None (ModuleC (Module_init (path_name d) d a)) of
           Inl e \<Rightarrow> Inl e
         | Inr b \<Rightarrow>
             scan_modules root a ds
               (if b then AList.update (path_name d) (Module_init (path_name d) d a) acc else acc))
      else scan_modules root a ds acc)"

definition Apps_apps :: "node \<Rightarrow> path option \<Rightarrow> apps \<Rightarrow> (error + app dict) \<times> apps" where
  "Apps_apps root current_bench self =
     (if hasattr (Apps_attrs self) ''__apps'' then
        (case Apps_attrs self ''_Apps__apps'' of
           None \<Rightarrow> (Inl AttributeError, self)
         | Some d \<Rightarrow> (Inr d, self))
      else
        (case iterdir root (Apps_path self) of
           Inl e \<Rightarrow> (Inl e, self)
         | Inr ds \<Rightarrow>
             (case scan_apps root current_bench ds [] of
                Inl e \<Rightarrow> (Inl e, self)
              | Inr d \<Rightarrow>
                  (Inr d, self\<lparr>Apps_attrs := (Apps_attrs self)(''_Apps__apps'' \<mapsto> d)\<rparr>))))"

definition App_modules :: "node \<Rightarrow> app \<Rightarrow> (error + module dict) \<times> app" where
  "App_modules root self =
     (if hasattr (App_attrs self) ''__modules'' then
        (case App_attrs self ''_App__modules'' of
           None \<Rightarrow> (Inl AttributeError, self)
         | Some d \<Rightarrow> (Inr d, self))
      else
        (case iterdir root (App_python_path self) of
           Inl e \<Rightarrow> (Inl e, self)
         | Inr ds \<Rightarrow>
             (case scan_modules root self ds [] of
                Inl e \<Rightarrow> (Inl e, self)
              | Inr d \<Rightarrow>
                  (Inr d, self\<lparr>App_attrs := (App_attrs self)(''_App__modules'' \<mapsto> d)\<rparr>))))"

section \<open>Tenants: \<^verbatim>\<open>Sites.Site\<close>\<close>

text \<open>
  Config values are JSON data. \<^verbatim>\<open>ConfigHandler\<close> and \<^verbatim>\<open>ConfigType\<close> come from
  \<^verbatim>\<open>frappe.config\<close>, which is not part of the file: what the two \<^verbatim>\<open>config\<close> properties
  of the handler return (a mapping, or an exception) and the two \<^verbatim>\<open>_config_stale\<close> flags
  are arguments of \<open>Site_config\<close>, and \<^verbatim>\<open>ConfigType(**config)\<close> is the mapping with the
  items of \<open>config\<close>. For a config mapping only the value under each key matters, so it
  is a map; \<^verbatim>\<open>config.update(site_config)\<close> is \<open>config ++ site_config\<close>.
\<close>

datatype json =
    JNull
  | JBool bool
  | JInt int
  | JString string
  | JList "json list"
  | JObject "(string \<times> json) list"

type_synonym config = "string \<Rightarrow> json option"

record site =
  Site_name :: string
  Site_path :: path
  Site_config_path :: path
  Site_combined_config :: "config option"  \<comment> \<open>the attribute \<^verbatim>\<open>_combined_config\<close>, absent at first\<close>

definition Site_init :: "string \<Rightarrow> path \<Rightarrow> site" where
  "Site_init name p =
     \<lparr>Site_name = name, Site_path = p, Site_config_path = p @ [''site_config.json''],
      Site_combined_config = None\<rparr>"

definition Site_config ::
  "bool \<Rightarrow> bool \<Rightarrow> error + config \<Rightarrow> error + config \<Rightarrow> site \<Rightarrow> (error + config) \<times> site" where
  "Site_config self_config_stale sites_config_stale super_config sites_config self =
     (if Site_combined_config self = None \<or> self_config_stale \<or> sites_config_stale then
        (case super_config of
           Inl e \<Rightarrow> (Inl e, self)
         | Inr site_config \<Rightarrow>
             (case sites_config of
                Inl e \<Rightarrow> (Inl e, self)
              | Inr config \<Rightarrow>
                  (Inr (config ++ site_config),
                   self\<lparr>Site_combined_config := Some (config ++ site_config)\<rparr>)))
      else
        (case Site_combined_config self of
           None \<Rightarrow> (Inl AttributeError, self)
         | Some c \<Rightarrow> (Inr c, self)))"

section \<open>The tenant registry: \<^verbatim>\<open>Sites\<close>\<close>

text \<open>
  \<open>Sites_site_name\<close> is \<^verbatim>\<open>frappe.local.site_name\<close> as the one execution context of the
  model sees it. \<open>Sites_init\<close> takes the resolved path, the value of the environment
  variable \<^verbatim>\<open>FRAPPE_SITE\<close> and the \<^verbatim>\<open>default_site\<close> entry of the common config. A string
  or \<^verbatim>\<open>None\<close> counts as true in a condition when it is a non-empty string.
\<close>

definition SCOPE_ALL_SITES :: string where
  "SCOPE_ALL_SITES = ''__scope-all-sites__''"

definition truthy :: "string option \<Rightarrow> bool" where
  "truthy v = (case v of None \<Rightarrow> False | Some s \<Rightarrow> s \<noteq> [])"

record sites =
  Sites_path :: path
  Sites_site_name :: "string option"
  Sites_attrs :: "site attrs"

definition Sites_init :: "path \<Rightarrow> string option \<Rightarrow> string option \<Rightarrow> sites" where
  "Sites_init p env_site default_site =
     \<lparr>Sites_path = p,
      Sites_site_name = (if truthy env_site then env_site else default_site),
      Sites_attrs = (\<lambda>n. None)\<rparr>"

definition Sites_scoped :: "sites \<Rightarrow> bool" where
  "Sites_scoped self =
     (truthy (Sites_site_name self) \<and> Sites_site_name self \<noteq> Some SCOPE_ALL_SITES)"

text \<open>\<^verbatim>\<open>self.__sites[name] = site\<close>: the attribute is read, then the item is stored.\<close>

definition setitem_sites :: "sites \<Rightarrow> string \<Rightarrow> site \<Rightarrow> error + sites" where
  "setitem_sites self name s =
     (case Sites_attrs self ''_Sites__sites'' of
        None \<Rightarrow> Inl AttributeError
      | Some d \<Rightarrow>
          Inr (self\<lparr>Sites_attrs := (Sites_attrs self)(''_Sites__sites'' \<mapsto> AList.update name s d)\<rparr>))"

definition process :: "node \<Rightarrow> sites \<Rightarrow> path \<Rightarrow> error + sites" where
  \<comment> \<open>the local function \<^verbatim>\<open>_process\<close> of \<^verbatim>\<open>_sites\<close>\<close>
  "process root self p =
     (if is_dir root p \<and> path_exists root (p @ [''site_config.json''])
      then setitem_sites self (path_name p) (Site_init (path_name p) p)
      else Inr self)"

fun process_all :: "node \<Rightarrow> sites \<Rightarrow> path list \<Rightarrow> error + sites" where
  "process_all root self [] = Inr self"
| "process_all root self (p # ps) =
     (case process root self p of
        Inl e \<Rightarrow> Inl e
      | Inr self' \<Rightarrow> process_all root self' ps)"

definition return_sites :: "sites \<Rightarrow> (error + site dict) \<times> sites" where
  \<comment> \<open>\<^verbatim>\<open>return self.__sites\<close>\<close>
  "return_sites self =
     (case Sites_attrs self ''_Sites__sites'' of
        None \<Rightarrow> (Inl AttributeError, self)
      | Some d \<Rightarrow> (Inr d, self))"

definition Sites_sites :: "node \<Rightarrow> sites \<Rightarrow> (error + site dict) \<times> sites" where
  \<comment> \<open>the property \<^verbatim>\<open>_sites\<close>\<close>
  "Sites_sites root self =
     (if hasattr (Sites_attrs self) ''__sites'' then return_sites self
      else
        (let self1 = self\<lparr>Sites_attrs := (Sites_attrs self)(''_Sites__sites'' \<mapsto> [])\<rparr> in
         if truthy (Sites_site_name self1) \<and> Sites_site_name self1 \<noteq> Some SCOPE_ALL_SITES then
           (case Sites_site_name self1 of
              None \<Rightarrow> return_sites self1
            | Some n \<Rightarrow>
                (case process root self1 (Sites_path self1 @ [n]) of
                   Inl e \<Rightarrow> (Inl e, self1)
                 | Inr self2 \<Rightarrow> return_sites self2))
         else if Sites_site_name self1 = Some SCOPE_ALL_SITES then
           (case iterdir root (Sites_path self1) of
              Inl e \<Rightarrow> (Inl e, self1)
            | Inr ps \<Rightarrow>
                (case process_all root self1 ps of
                   Inl e \<Rightarrow> (Inl e, self1)
                 | Inr self2 \<Rightarrow> return_sites self2))
         else return_sites self1))"

definition Sites_getitem :: "node \<Rightarrow> sites \<Rightarrow> string \<Rightarrow> (error + site) \<times> sites" where
  "Sites_getitem root self key =
     (case Sites_sites root self of
        (Inl e, self') \<Rightarrow> (Inl e, self')
      | (Inr d, self') \<Rightarrow>
          (case map_of d key of
             None \<Rightarrow> (Inl BenchSiteNotLoadedError, self')
           | Some s \<Rightarrow> (Inr s, self')))"

definition Sites_site :: "node \<Rightarrow> sites \<Rightarrow> (error + site) \<times> sites" where
  "Sites_site root self =
     (case Sites_site_name self of
        None \<Rightarrow> (Inl BenchNotScopedError, self)
      | Some n \<Rightarrow>
          (if n = [] \<or> n = SCOPE_ALL_SITES then (Inl BenchNotScopedError, self)
           else Sites_getitem root self n))"

definition Sites_scope :: "node \<Rightarrow> sites \<Rightarrow> string option \<Rightarrow> (error + site) \<times> sites" where
  "Sites_scope root self site_name =
     (case site_name of
        None \<Rightarrow> Sites_site root self
      | Some n \<Rightarrow>
          (case Sites_attrs self ''_Sites__sites'' of
             None \<Rightarrow> (Inl AttributeError, self)
           | Some d \<Rightarrow>
               (let self1 = self\<lparr>Sites_attrs := (Sites_attrs self)(''_Sites__sites'' := None)\<rparr>;
                    self2 = self1\<lparr>Sites_site_name := Some n\<rparr>
                in if Sites_site_name self2 \<noteq> Some SCOPE_ALL_SITES then Sites_site root self2
                   else (Inl BenchNotScopedError, self2))))"

definition Sites_iter :: "node \<Rightarrow> sites \<Rightarrow> (error + site list) \<times> sites" where
  "Sites_iter root self =
     (if Sites_site_name self = Some SCOPE_ALL_SITES then
        (case Sites_sites root self of
           (Inl e, self') \<Rightarrow> (Inl e, self')
         | (Inr d, self') \<Rightarrow> (Inr (map snd d), self'))
      else
        (case Sites_site_name self of
           None \<Rightarrow> (Inl BenchNotScopedError, self)
         | Some n \<Rightarrow>
             (if n = [] then (Inl BenchNotScopedError, self)
              else
                (case Sites_getitem root self n of
                   (Inl e, self') \<Rightarrow> (Inl e, self')
                 | (Inr s, self') \<Rightarrow> (Inr [s], self')))))"

text \<open>
  \<^verbatim>\<open>add_site\<close> makes the five directories in the order of the source, then stores the
  new tenant; the file system it leaves behind is part of the result, also when the
  call raises.
\<close>

fun mkdir_all :: "node \<Rightarrow> path list \<Rightarrow> (error + unit) \<times> node" where
  "mkdir_all root [] = (Inr (), root)"
| "mkdir_all root (p # ps) =
     (case mkdir_parents root p of
        Inl e \<Rightarrow> (Inl e, root)
      | Inr root' \<Rightarrow> mkdir_all root' ps)"

definition Sites_add_site :: "node \<Rightarrow> sites \<Rightarrow> string \<Rightarrow> (error + unit) \<times> node \<times> sites" where
  "Sites_add_site root self site_name =
     (let site_path = Sites_path self @ [site_name] in
      case mkdir_all root
             [site_path @ [''public'', ''files''],
              site_path @ [''private'', ''backups''],
              site_path @ [''private'', ''files''],
              site_path @ [''locks''],
              site_path @ [''logs'']] of
        (Inl e, root') \<Rightarrow> (Inl e, root', self)
      | (Inr u, root') \<Rightarrow>
          (case setitem_sites self site_name (Site_init site_name site_path) of
             Inl e \<Rightarrow> (Inl e, root', self)
           | Inr self' \<Rightarrow> (Inr (), root', self')))"

definition Sites_remove_site :: "sites \<Rightarrow> string \<Rightarrow> (error + unit) \<times> sites" where
  "Sites_remove_site self site_name =
     (case Sites_attrs self ''_Sites__sites'' of
        None \<Rightarrow> (Inl AttributeError, self)
      | Some d \<Rightarrow>
          (if site_name \<in> fst ` set d
           then (Inr (), self\<lparr>Sites_attrs := (Sites_attrs self)(''_Sites__sites'' \<mapsto> AList.delete site_name d)\<rparr>)
           else (Inr (), self)))"

section \<open>An example installation\<close>

text \<open>
  A bench directory with three entries under \<^verbatim>\<open>apps\<close> besides a plain file (\<^verbatim>\<open>erpnext\<close>
  carries the marker file, \<^verbatim>\<open>notes\<close> and \<^verbatim>\<open>erp\<close> do not) and two tenants under
  \<^verbatim>\<open>sites\<close>. \<open>bench2\<close> is the same tree after one more app was unpacked.
\<close>

definition apps_listing :: "(string \<times> node) list" where
  "apps_listing =
     [(''erpnext'', Dir
         [(''erpnext'', Dir
            [(''.frappe'', File []),
             (''stock'', Dir [(''.frappe'', File [])]),
             (''set'', Dir []),
             (''docs'', Dir []),
             (''modules.txt'', File ''Stock Setup'')])]),
      (''notes'', Dir [(''notes'', Dir [])]),
      (''erp'', Dir []),
      (''README.md'', File ''text'')]"

definition sites_listing :: "(string \<times> node) list" where
  "sites_listing =
     [(''common_site_config.json'', File ''{}''),
      (''apps.txt'', File ''frappe erpnext''),
      (''site1'', Dir [(''site_config.json'', File ''{}'')]),
      (''assets'', Dir []),
      (''site2'', Dir [(''site_config.json'', File ''{}''), (''logs'', Dir [])])]"

definition bench1 :: node where
  "bench1 = Dir [(''apps'', Dir apps_listing), (''sites'', Dir sites_listing)]"

definition bench2 :: node where
  "bench2 =
     Dir [(''apps'', Dir (apps_listing @ [(''hrms'', Dir [(''hrms'', Dir [(''.frappe'', File [])])])])),
          (''sites'', Dir sites_listing)]"

section \<open>Evaluation and basic facts\<close>

lemmas fs_defs = bench1_def bench2_def apps_listing_def sites_listing_def lookup_def is_dir_def
  path_exists_def read_text_def iterdir_def path_name_def

lemmas component_defs = Apps_apps_def App_modules_def Apps_init_def App_init_def Module_init_def
  hasattr_def is_frappe_component_def is_app_installed_def is_module_registered_def

lemmas string_defs = sublist_Cons_right title_def is_cased_def ascii_lowercase_def
  ascii_uppercase_def to_upper_def to_lower_def

lemmas sites_defs = Sites_init_def Sites_sites_def Sites_getitem_def Sites_site_def Sites_scope_def
  Sites_iter_def Sites_add_site_def Sites_remove_site_def setitem_sites_def process_def
  return_sites_def truthy_def SCOPE_ALL_SITES_def hasattr_def Site_init_def Let_def

lemma path_name_snoc [simp]: "path_name (p @ [n]) = n"
  by (simp add: path_name_def)

lemma update_new_key: "k \<notin> fst ` set al \<Longrightarrow> AList.update k v al = al @ [(k, v)]"
  by (induction al) auto

lemma listing_keys:
  "(\<exists>p. n = path_name p \<and> p \<in> set (map (\<lambda>e. P @ [fst e]) es) \<and> Q p) \<longleftrightarrow>
   (n \<in> fst ` set es \<and> Q (P @ [n]))"
proof
  assume "\<exists>p. n = path_name p \<and> p \<in> set (map (\<lambda>e. P @ [fst e]) es) \<and> Q p"
  then obtain p e where "n = path_name p" "e \<in> set es" "p = P @ [fst e]" "Q p"
    by auto
  then show "n \<in> fst ` set es \<and> Q (P @ [n])"
    by simp
next
  assume a: "n \<in> fst ` set es \<and> Q (P @ [n])"
  then obtain e where "e \<in> set es" "n = fst e"
    by auto
  with a show "\<exists>p. n = path_name p \<and> p \<in> set (map (\<lambda>e. P @ [fst e]) es) \<and> Q p"
    by (intro exI [of _ "P @ [n]"]) simp
qed

lemma listing_names: "map path_name (map (\<lambda>e. P @ [fst e]) es) = map fst es"
  by (induction es) simp_all

lemma listing_filter:
  "map (\<lambda>p. (path_name p, Site_init (path_name p) p)) (filter Q (map (\<lambda>e. P @ [fst e]) es)) =
   map (\<lambda>n. (n, Site_init n (P @ [n]))) (filter (\<lambda>n. Q (P @ [n])) (map fst es))"
  by (induction es) simp_all

section \<open>The component scans\<close>

text \<open>The keys a scan adds are the names of the directories whose component is present.\<close>

lemma scan_apps_keys:
  "scan_apps root cb ds acc = Inr d \<Longrightarrow>
   fst ` set d = fst ` set acc \<union>
     {path_name p | p. p \<in> set ds \<and> is_dir root p \<and>
        FrappeComponent_bool root cb (AppC (App_init (path_name p) p)) = Inr True}"
proof (induction ds arbitrary: acc)
  case Nil
  then show ?case by simp
next
  case (Cons p ds)
  show ?case
  proof (cases "is_dir root p")
    case False
    with Cons show ?thesis by auto
  next
    case True
    show ?thesis
    proof (cases "FrappeComponent_bool root cb (AppC (App_init (path_name p) p))")
      case (Inl e)
      with True Cons.prems show ?thesis by simp
    next
      case (Inr b)
      with True Cons.prems have
        "scan_apps root cb ds
           (if b then AList.update (path_name p) (App_init (path_name p) p) acc else acc) = Inr d"
        by simp
      from Cons.IH [OF this] Inr True show ?thesis
        by (cases b) (auto simp: dom_update)
    qed
  qed
qed

lemma scan_modules_keys:
  "scan_modules root a ds acc = Inr d \<Longrightarrow>
   fst ` set d = fst ` set acc \<union>
     {path_name p | p. p \<in> set ds \<and> is_dir root p \<and>
        FrappeComponent_bool root None (ModuleC (Module_init (path_name p) p a)) = Inr True}"
proof (induction ds arbitrary: acc)
  case Nil
  then show ?case by simp
next
  case (Cons p ds)
  show ?case
  proof (cases "is_dir root p")
    case False
    with Cons show ?thesis by auto
  next
    case True
    show ?thesis
    proof (cases "FrappeComponent_bool root None (ModuleC (Module_init (path_name p) p a))")
      case (Inl e)
      with True Cons.prems show ?thesis by simp
    next
      case (Inr b)
      with True Cons.prems have
        "scan_modules root a ds
           (if b then AList.update (path_name p) (Module_init (path_name p) p a) acc else acc) = Inr d"
        by simp
      from Cons.IH [OF this] Inr True show ?thesis
        by (cases b) (auto simp: dom_update)
    qed
  qed
qed

lemma Apps_apps_scan:
  assumes "\<not> hasattr (Apps_attrs r) ''__apps''"
    and "lookup root (Apps_path r) = Some (Dir es)"
    and "fst (Apps_apps root cb r) = Inr d"
  shows "scan_apps root cb (map (\<lambda>e. Apps_path r @ [fst e]) es) [] = Inr d"
proof -
  from assms(2) have "iterdir root (Apps_path r) = Inr (map (\<lambda>e. Apps_path r @ [fst e]) es)"
    by (simp add: iterdir_def)
  with assms(1,3) show ?thesis
    by (simp add: Apps_apps_def split: sum.splits)
qed

lemma App_modules_scan:
  assumes "\<not> hasattr (App_attrs a) ''__modules''"
    and "lookup root (App_python_path a) = Some (Dir es)"
    and "fst (App_modules root a) = Inr d"
  shows "scan_modules root a (map (\<lambda>e. App_python_path a @ [fst e]) es) [] = Inr d"
proof -
  from assms(2) have
    "iterdir root (App_python_path a) = Inr (map (\<lambda>e. App_python_path a @ [fst e]) es)"
    by (simp add: iterdir_def)
  with assms(1,3) show ?thesis
    by (simp add: App_modules_def split: sum.splits)
qed

lemma Apps_apps_keys:
  assumes "\<not> hasattr (Apps_attrs r) ''__apps''"
    and "lookup root (Apps_path r) = Some (Dir es)"
    and "fst (Apps_apps root cb r) = Inr d"
  shows "n \<in> fst ` set d \<longleftrightarrow>
       n \<in> fst ` set es \<and> is_dir root (Apps_path r @ [n]) \<and>
       FrappeComponent_bool root cb (AppC (App_init n (Apps_path r @ [n]))) = Inr True"
proof -
  let ?Q = "\<lambda>p. is_dir root p \<and>
    FrappeComponent_bool root cb (AppC (App_init (path_name p) p)) = Inr True"
  have "n \<in> fst ` set d \<longleftrightarrow>
        (\<exists>p. n = path_name p \<and> p \<in> set (map (\<lambda>e. Apps_path r @ [fst e]) es) \<and> ?Q p)"
    unfolding scan_apps_keys [OF Apps_apps_scan [OF assms]] by simp
  also have "\<dots> \<longleftrightarrow> n \<in> fst ` set es \<and> ?Q (Apps_path r @ [n])"
    by (rule listing_keys)
  finally show ?thesis by simp
qed

lemma App_modules_keys:
  assumes "\<not> hasattr (App_attrs a) ''__modules''"
    and "lookup root (App_python_path a) = Some (Dir es)"
    and "fst (App_modules root a) = Inr d"
  shows "n \<in> fst ` set d \<longleftrightarrow>
       n \<in> fst ` set es \<and> is_dir root (App_python_path a @ [n]) \<and>
       FrappeComponent_bool root None
         (ModuleC (Module_init n (App_python_path a @ [n]) a)) = Inr True"
proof -
  let ?Q = "\<lambda>p. is_dir root p \<and>
    FrappeComponent_bool root None (ModuleC (Module_init (path_name p) p a)) = Inr True"
  have "n \<in> fst ` set d \<longleftrightarrow>
        (\<exists>p. n = path_name p \<and> p \<in> set (map (\<lambda>e. App_python_path a @ [fst e]) es) \<and> ?Q p)"
    unfolding scan_modules_keys [OF App_modules_scan [OF assms]] by simp
  also have "\<dots> \<longleftrightarrow> n \<in> fst ` set es \<and> ?Q (App_python_path a @ [n])"
    by (rule listing_keys)
  finally show ?thesis by simp
qed

lemma bench1_apps:
  "fst (Apps_apps bench1 (Some [''sites'']) (Apps_init [''apps''])) =
   Inr [(''erpnext'', App_init ''erpnext'' [''apps'', ''erpnext'']),
        (''erp'', App_init ''erp'' [''apps'', ''erp''])]"
  by (simp add: fs_defs component_defs string_defs)

lemma bench1_modules:
  "fst (App_modules bench1 (App_init ''erpnext'' [''apps'', ''erpnext''])) =
   Inr [(''stock'', Module_init ''stock'' [''apps'', ''erpnext'', ''erpnext'', ''stock'']
                     (App_init ''erpnext'' [''apps'', ''erpnext''])),
        (''set'', Module_init ''set'' [''apps'', ''erpnext'', ''erpnext'', ''set'']
                   (App_init ''erpnext'' [''apps'', ''erpnext'']))]"
  by (simp add: fs_defs component_defs string_defs)

section \<open>The stored mappings and the scope\<close>

text \<open>
  A registry that was just constructed has none of the mapping attributes. While the
  attribute \<^verbatim>\<open>_Sites__sites\<close> is missing, the three methods that touch \<^verbatim>\<open>self.__sites\<close>
  directly raise \<^verbatim>\<open>AttributeError\<close>.
\<close>

lemma new_registry_has_no_attributes: "Sites_attrs (Sites_init p env_site default_site) n = None"
  by (simp add: Sites_init_def)

lemma scope_without_mapping_raises:
  "Sites_attrs s ''_Sites__sites'' = None \<Longrightarrow> Sites_scope root s (Some n) = (Inl AttributeError, s)"
  by (simp add: Sites_scope_def)

lemma remove_site_without_mapping_raises:
  "Sites_attrs s ''_Sites__sites'' = None \<Longrightarrow> Sites_remove_site s n = (Inl AttributeError, s)"
  by (simp add: Sites_remove_site_def)

lemma add_site_without_mapping_raises:
  "Sites_attrs s ''_Sites__sites'' = None \<Longrightarrow> fst (Sites_add_site root s n) \<noteq> Inr ()"
  by (simp add: Sites_add_site_def setitem_sites_def Let_def split: prod.splits sum.splits)

text \<open>
  The three properties test \<^verbatim>\<open>hasattr\<close> with the unmangled name, which no method assigns:
  what they return does not depend on the mapping stored by an earlier read.
\<close>

lemma Sites_sites_ignores_stored_mapping:
  "\<not> hasattr (Sites_attrs s) ''__sites'' \<Longrightarrow>
   fst (Sites_sites root (s\<lparr>Sites_attrs := (Sites_attrs s)(''_Sites__sites'' \<mapsto> d)\<rparr>)) =
   fst (Sites_sites root s)"
  by (simp add: Sites_sites_def hasattr_def)

lemma Apps_apps_ignores_stored_mapping:
  "\<not> hasattr (Apps_attrs r) ''__apps'' \<Longrightarrow>
   fst (Apps_apps root cb (r\<lparr>Apps_attrs := (Apps_attrs r)(''_Apps__apps'' \<mapsto> d)\<rparr>)) =
   fst (Apps_apps root cb r)"
  by (simp add: Apps_apps_def hasattr_def split: sum.splits)

lemma Module_init_attrs: "Module_init n p (a\<lparr>App_attrs := x\<rparr>) = Module_init n p a"
  by (simp add: Module_init_def)

lemma scan_modules_attrs:
  "scan_modules root (a\<lparr>App_attrs := x\<rparr>) ds acc = scan_modules root a ds acc"
  by (induction ds arbitrary: acc) (simp_all add: Module_init_attrs split: sum.splits)

lemma App_modules_ignores_stored_mapping:
  "\<not> hasattr (App_attrs a) ''__modules'' \<Longrightarrow>
   fst (App_modules root (a\<lparr>App_attrs := (App_attrs a)(''_App__modules'' \<mapsto> d)\<rparr>)) =
   fst (App_modules root a)"
  by (simp add: App_modules_def hasattr_def scan_modules_attrs split: sum.splits)

text \<open>
  \<^verbatim>\<open>site\<close> raises \<^verbatim>\<open>BenchNotScopedError\<close> exactly when the identifier is \<^verbatim>\<open>None\<close>, the
  empty string or the all-sentinel, and iteration of an unscoped registry raises it.
\<close>

lemma site_raises_not_scoped_iff:
  "fst (Sites_site root s) = Inl BenchNotScopedError \<longleftrightarrow>
   (\<not> truthy (Sites_site_name s) \<or> Sites_site_name s = Some SCOPE_ALL_SITES)"
  by (auto simp: Sites_site_def Sites_getitem_def Sites_sites_def return_sites_def process_def
      setitem_sites_def truthy_def Let_def split: option.splits sum.splits prod.splits if_splits)

lemma iter_unscoped_raises:
  "\<not> truthy (Sites_site_name s) \<Longrightarrow> Sites_iter root s = (Inl BenchNotScopedError, s)"
  by (auto simp: Sites_iter_def truthy_def SCOPE_ALL_SITES_def split: option.splits)

text \<open>
  On a registry whose attribute \<^verbatim>\<open>_Sites__sites\<close> exists, \<^verbatim>\<open>scope\<close> deletes it and sets the
  identifier. With the all-sentinel it then raises; with another name the mapping it
  leaves behind was built for that name alone.
\<close>

lemma scope_all_with_mapping:
  "Sites_attrs s ''_Sites__sites'' = Some d \<Longrightarrow>
   Sites_scope root s (Some SCOPE_ALL_SITES) =
     (Inl BenchNotScopedError,
      s\<lparr>Sites_attrs := (Sites_attrs s)(''_Sites__sites'' := None),
        Sites_site_name := Some SCOPE_ALL_SITES\<rparr>)"
  by (simp add: Sites_scope_def Let_def)

lemma scope_with_mapping:
  assumes "Sites_attrs s ''_Sites__sites'' = Some d"
    and "\<not> hasattr (Sites_attrs s) ''__sites''"
    and "n \<noteq> []" and "n \<noteq> SCOPE_ALL_SITES"
  shows "Sites_site_name (snd (Sites_scope root s (Some n))) = Some n \<and>
         (\<exists>d'. Sites_attrs (snd (Sites_scope root s (Some n))) ''_Sites__sites'' = Some d' \<and>
               fst ` set d' \<subseteq> {n})"
  using assms
  by (auto simp: Sites_scope_def Sites_site_def Sites_getitem_def Sites_sites_def return_sites_def
      process_def setitem_sites_def truthy_def hasattr_def Let_def
      split: option.splits sum.splits prod.splits if_splits)

section \<open>Claims about the component registry\<close>

text \<open>
  C1, as stated, fails: the mapping read from \<^verbatim>\<open>Apps.apps\<close> does filter by the presence
  check. In \<open>bench1\<close> the entry \<^verbatim>\<open>apps/notes\<close> is an immediate subdirectory of the
  registry root, it has no marker file and \<^verbatim>\<open>sites/apps.txt\<close> does not mention it, and
  the mapping has no entry named \<^verbatim>\<open>notes\<close>; likewise the directory \<^verbatim>\<open>docs\<close> of the app
  \<^verbatim>\<open>erpnext\<close> is missing from its modules.
\<close>

theorem absent_component_is_filtered_out:
  "is_dir bench1 [''apps'', ''notes''] \<and>
   (\<exists>d. fst (Apps_apps bench1 (Some [''sites'']) (Apps_init [''apps''])) = Inr d \<and>
        ''notes'' \<notin> fst ` set d) \<and>
   is_dir bench1 [''apps'', ''erpnext'', ''erpnext'', ''docs''] \<and>
   (\<exists>d. fst (App_modules bench1 (App_init ''erpnext'' [''apps'', ''erpnext''])) = Inr d \<and>
        ''docs'' \<notin> fst ` set d)"
  by (simp add: bench1_apps bench1_modules) (simp add: fs_defs)

text \<open>
  C1, amended: when the scan of \<^verbatim>\<open>Apps.apps\<close> (of \<^verbatim>\<open>App.modules\<close>) returns, the mapping has
  an entry named \<open>n\<close> exactly when \<open>n\<close> names an entry of the registry root (of the app's
  python path) that is a directory and whose freshly built component is present, that is,
  \<^verbatim>\<open>__bool__\<close> of \<^verbatim>\<open>App(name=n, path=d)\<close> (of \<^verbatim>\<open>Module(name=n, path=d, app=self)\<close>) is true.
  Entries that are not directories are ignored.
\<close>

theorem presence_filters_components:
  "(\<not> hasattr (Apps_attrs r) ''__apps'' \<longrightarrow>
    lookup root (Apps_path r) = Some (Dir es) \<longrightarrow>
    fst (Apps_apps root cb r) = Inr d \<longrightarrow>
    (n \<in> fst ` set d \<longleftrightarrow>
       n \<in> fst ` set es \<and> is_dir root (Apps_path r @ [n]) \<and>
       FrappeComponent_bool root cb (AppC (App_init n (Apps_path r @ [n]))) = Inr True))
   \<and>
   (\<not> hasattr (App_attrs a) ''__modules'' \<longrightarrow>
    lookup root (App_python_path a) = Some (Dir es') \<longrightarrow>
    fst (App_modules root a) = Inr d' \<longrightarrow>
    (n' \<in> fst ` set d' \<longleftrightarrow>
       n' \<in> fst ` set es' \<and> is_dir root (App_python_path a @ [n']) \<and>
       FrappeComponent_bool root None
         (ModuleC (Module_init n' (App_python_path a @ [n']) a)) = Inr True))"
  using Apps_apps_keys [of r root es cb d n] App_modules_keys [of a root es' d' n']
  by blast

text \<open>
  The amended C1 at \<open>bench1\<close>: \<^verbatim>\<open>erpnext\<close> is a directory with the marker file and is in
  the mapping; its module \<^verbatim>\<open>stock\<close> likewise.
\<close>

theorem presence_filters_components_witness:
  "\<not> hasattr (Apps_attrs (Apps_init [''apps''])) ''__apps'' \<and>
   lookup bench1 (Apps_path (Apps_init [''apps''])) = Some (Dir apps_listing) \<and>
   (\<exists>d. fst (Apps_apps bench1 (Some [''sites'']) (Apps_init [''apps''])) = Inr d \<and>
        ''erpnext'' \<in> fst ` set d \<and>
        FrappeComponent_bool bench1 (Some [''sites''])
          (AppC (App_init ''erpnext'' (Apps_path (Apps_init [''apps'']) @ [''erpnext'']))) = Inr True) \<and>
   \<not> hasattr (App_attrs (App_init ''erpnext'' [''apps'', ''erpnext''])) ''__modules'' \<and>
   (\<exists>es'. lookup bench1 (App_python_path (App_init ''erpnext'' [''apps'', ''erpnext''])) =
            Some (Dir es')) \<and>
   (\<exists>d'. fst (App_modules bench1 (App_init ''erpnext'' [''apps'', ''erpnext''])) = Inr d' \<and>
        ''stock'' \<in> fst ` set d' \<and>
        FrappeComponent_bool bench1 None
          (ModuleC (Module_init ''stock''
             (App_python_path (App_init ''erpnext'' [''apps'', ''erpnext'']) @ [''stock''])
             (App_init ''erpnext'' [''apps'', ''erpnext'']))) = Inr True)"
proof -
  let ?r = "Apps_init [''apps'']"
  let ?a = "App_init ''erpnext'' [''apps'', ''erpnext'']"
  let ?es' = "[(''.frappe'', File []), (''stock'', Dir [(''.frappe'', File [])]),
               (''set'', Dir []), (''docs'', Dir []), (''modules.txt'', File ''Stock Setup'')]"
  have h1: "\<not> hasattr (Apps_attrs ?r) ''__apps''"
    by (simp add: component_defs)
  have h2: "lookup bench1 (Apps_path ?r) = Some (Dir apps_listing)"
    by (simp add: Apps_init_def bench1_def lookup_def)
  have h3: "\<not> hasattr (App_attrs ?a) ''__modules''"
    by (simp add: component_defs)
  have h4: "lookup bench1 (App_python_path ?a) = Some (Dir ?es')"
    by (simp add: App_init_def fs_defs)
  have k1: "''erpnext'' \<in> fst ` set apps_listing \<and> ''stock'' \<in> fst ` set ?es'"
    by (simp add: apps_listing_def)
  have k2: "is_dir bench1 (Apps_path ?r @ [''erpnext'']) \<and>
            is_dir bench1 (App_python_path ?a @ [''stock''])"
    by (simp add: Apps_init_def App_init_def fs_defs)
  have k3: "FrappeComponent_bool bench1 (Some [''sites''])
              (AppC (App_init ''erpnext'' (Apps_path ?r @ [''erpnext'']))) = Inr True"
    by (simp add: fs_defs component_defs)
  have k4: "FrappeComponent_bool bench1 None
              (ModuleC (Module_init ''stock'' (App_python_path ?a @ [''stock'']) ?a)) = Inr True"
    by (simp add: fs_defs component_defs)
  from presence_filters_components [of ?r bench1 apps_listing "Some [''sites'']" _ "''erpnext''"
      ?a ?es' _ "''stock''"] h1 h2 h3 h4 k1 k2 k3 k4 bench1_apps bench1_modules
  show ?thesis
    by blast
qed

text \<open>
  C9: the legacy presence checks are substring tests on the text of the manifest. For an
  app without the marker, \<^verbatim>\<open>bool(app)\<close> is exactly "the app's name is a contiguous
  substring of the contents of \<^verbatim>\<open>sites/apps.txt\<close>"; for a module without the marker,
  \<^verbatim>\<open>bool(module)\<close> is exactly "the title-cased name is a contiguous substring of the
  contents of the owning app's \<^verbatim>\<open>modules.txt\<close>".
\<close>

theorem legacy_presence_is_substring_match:
  "(\<not> is_frappe_component root (App_python_path a) \<longrightarrow>
    read_text root (sites_path @ [''apps.txt'']) = Inr text \<longrightarrow>
    FrappeComponent_bool root (Some sites_path) (AppC a) = Inr (sublist (App_name a) text))
   \<and>
   (\<not> is_frappe_component root (Module_python_path m) \<longrightarrow>
    read_text root (Module_app_python_path m @ [''modules.txt'']) = Inr text' \<longrightarrow>
    FrappeComponent_bool root cb (ModuleC m) = Inr (sublist (title (Module_name m)) text'))"
  by (simp add: is_app_installed_def is_module_registered_def)

text \<open>
  C9 at \<open>bench1\<close>: the manifest lists \<^verbatim>\<open>frappe\<close> and \<^verbatim>\<open>erpnext\<close>, and the app named \<^verbatim>\<open>erp\<close>
  is present; \<^verbatim>\<open>modules.txt\<close> lists \<^verbatim>\<open>Stock\<close> and \<^verbatim>\<open>Setup\<close>, and the module named \<^verbatim>\<open>set\<close>
  is present.
\<close>

theorem legacy_presence_is_substring_match_witness:
  "\<not> is_frappe_component bench1 (App_python_path (App_init ''erp'' [''apps'', ''erp''])) \<and>
   read_text bench1 ([''sites''] @ [''apps.txt'']) = Inr ''frappe erpnext'' \<and>
   FrappeComponent_bool bench1 (Some [''sites'']) (AppC (App_init ''erp'' [''apps'', ''erp''])) =
     Inr True \<and>
   \<not> is_frappe_component bench1
       (Module_python_path (Module_init ''set'' [''apps'', ''erpnext'', ''erpnext'', ''set'']
          (App_init ''erpnext'' [''apps'', ''erpnext'']))) \<and>
   read_text bench1
     (Module_app_python_path (Module_init ''set'' [''apps'', ''erpnext'', ''erpnext'', ''set'']
        (App_init ''erpnext'' [''apps'', ''erpnext''])) @ [''modules.txt'']) = Inr ''Stock Setup'' \<and>
   FrappeComponent_bool bench1 None
     (ModuleC (Module_init ''set'' [''apps'', ''erpnext'', ''erpnext'', ''set'']
        (App_init ''erpnext'' [''apps'', ''erpnext'']))) = Inr True"
proof -
  let ?a = "App_init ''erp'' [''apps'', ''erp'']"
  let ?m = "Module_init ''set'' [''apps'', ''erpnext'', ''erpnext'', ''set'']
              (App_init ''erpnext'' [''apps'', ''erpnext''])"
  have h1: "\<not> is_frappe_component bench1 (App_python_path ?a)"
    by (simp add: fs_defs component_defs)
  have h2: "read_text bench1 ([''sites''] @ [''apps.txt'']) = Inr ''frappe erpnext''"
    by (simp add: fs_defs)
  have h3: "\<not> is_frappe_component bench1 (Module_python_path ?m)"
    by (simp add: fs_defs component_defs)
  have h4: "read_text bench1 (Module_app_python_path ?m @ [''modules.txt'']) = Inr ''Stock Setup''"
    by (simp add: fs_defs component_defs)
  have s1: "sublist (App_name ?a) ''frappe erpnext''"
    by (simp add: App_init_def string_defs)
  have s2: "sublist (title (Module_name ?m)) ''Stock Setup''"
    by (simp add: Module_init_def string_defs)
  from legacy_presence_is_substring_match [of bench1 ?a "[''sites'']" "''frappe erpnext''"
      ?m "''Stock Setup''" None] h1 h2 h3 h4 s1 s2
  show ?thesis
    by simp
qed

text \<open>
  C2 at a concrete registry: the scan is not memoized. A first read of \<^verbatim>\<open>Apps.apps\<close> on
  \<open>bench1\<close> stores the mapping under \<^verbatim>\<open>_Apps__apps\<close>. A second read does not return the
  stored object: after the caller emptied the mapping it got, the second read again
  yields both apps, and it lists the directory again, since on \<open>bench2\<close> it finds the
  app that was added after the first read.
\<close>

theorem Apps_apps_scans_on_every_read:
  "(case Apps_apps bench1 (Some [''sites'']) (Apps_init [''apps'']) of
      (r1, self1) \<Rightarrow>
        map_sum id (map fst) r1 = Inr [''erpnext'', ''erp''] \<and>
        map_option (map fst) (Apps_attrs self1 ''_Apps__apps'') = Some [''erpnext'', ''erp''] \<and>
        map_sum id (map fst)
          (fst (Apps_apps bench1 (Some [''sites''])
                  (self1\<lparr>Apps_attrs := (Apps_attrs self1)(''_Apps__apps'' \<mapsto> [])\<rparr>))) =
          Inr [''erpnext'', ''erp''] \<and>
        map_sum id (map fst) (fst (Apps_apps bench2 (Some [''sites'']) self1)) =
          Inr [''erpnext'', ''erp'', ''hrms''])"
  by (simp add: fs_defs component_defs string_defs)

section \<open>Claims about tenants and the tenant registry\<close>

text \<open>
  C3, as stated for every tenant, fails: \<^verbatim>\<open>Site.config\<close> returns the stored merge whenever
  one is cached and neither stale flag is set, whatever the two mappings are by then. A new
  tenant with own config \<^verbatim>\<open>{"b":2}\<close> reads its merged config while the registry-wide
  config is \<^verbatim>\<open>{"a":1,"b":1}\<close>. The registry-wide config then becomes \<^verbatim>\<open>{"a":5,"b":1}\<close> and
  the registry's stale flag is clear again (another reader of the registry's config
  reloaded it). The tenant's second read still maps \<^verbatim>\<open>a\<close> to 1, where the overlay of the
  two current mappings maps it to 5.
\<close>

theorem cached_merge_survives_registry_reload:
  "(case Site_config False False (Inr [''b'' \<mapsto> JInt 2])
           (Inr [''a'' \<mapsto> JInt 1, ''b'' \<mapsto> JInt 1])
           (Site_init ''site1'' [''sites'', ''site1'']) of
      (r1, self1) \<Rightarrow>
        r1 = Inr [''a'' \<mapsto> JInt 1, ''b'' \<mapsto> JInt 2] \<and>
        Site_combined_config self1 = Some [''a'' \<mapsto> JInt 1, ''b'' \<mapsto> JInt 2] \<and>
        fst (Site_config False False (Inr [''b'' \<mapsto> JInt 2])
               (Inr [''a'' \<mapsto> JInt 5, ''b'' \<mapsto> JInt 1]) self1) =
          Inr [''a'' \<mapsto> JInt 1, ''b'' \<mapsto> JInt 2] \<and>
        ([''a'' \<mapsto> JInt 5, ''b'' \<mapsto> JInt 1] ++ [''b'' \<mapsto> JInt 2]) ''a'' = Some (JInt 5) \<and>
        [''a'' \<mapsto> JInt 1, ''b'' \<mapsto> JInt 2] ''a'' = Some (JInt 1))"
  by (simp add: Site_config_def Site_init_def)

text \<open>
  C3, amended: whenever \<^verbatim>\<open>Site.config\<close> recomputes, that is, no merged config is cached
  yet, or the tenant's own store is stale, or the registry's store is stale, it returns the
  registry-wide mapping \<open>A\<close> overlaid by the tenant's own mapping \<open>B\<close> and caches that
  result: under every key the value of \<open>B\<close> when \<open>B\<close> has the key (the tenant wins), and
  the value of \<open>A\<close> otherwise. When a merge is cached and neither store is stale, it
  returns the cached merge and changes nothing.
\<close>

theorem merged_config_overlay_on_reload:
  "(Site_combined_config s = None \<or> self_stale \<or> sites_stale \<longrightarrow>
      Site_config self_stale sites_stale (Inr B) (Inr A) s =
        (Inr (A ++ B), s\<lparr>Site_combined_config := Some (A ++ B)\<rparr>) \<and>
      (A ++ B) k = (case B k of Some v \<Rightarrow> Some v | None \<Rightarrow> A k))
   \<and>
   (Site_combined_config s = Some c \<and> \<not> self_stale \<and> \<not> sites_stale \<longrightarrow>
      Site_config self_stale sites_stale (Inr B) (Inr A) s = (Inr c, s))"
  by (auto simp: Site_config_def map_add_def split: option.splits)

text \<open>
  The amended C3 on the example of the spec: installation config \<^verbatim>\<open>{"a":1,"b":1}\<close>, tenant
  config \<^verbatim>\<open>{"b":2}\<close>. The first access of a new tenant yields \<^verbatim>\<open>{"a":1,"b":2}\<close> and stores it;
  the next access, with nothing stale, returns the stored merge.
\<close>

theorem merged_config_overlay_on_reload_witness:
  "Site_combined_config (Site_init ''site1'' [''sites'', ''site1'']) = None \<and>
   Site_config False False (Inr [''b'' \<mapsto> JInt 2])
       (Inr [''a'' \<mapsto> JInt 1, ''b'' \<mapsto> JInt 1])
       (Site_init ''site1'' [''sites'', ''site1'']) =
     (Inr [''a'' \<mapsto> JInt 1, ''b'' \<mapsto> JInt 2],
      (Site_init ''site1'' [''sites'', ''site1''])
        \<lparr>Site_combined_config := Some [''a'' \<mapsto> JInt 1, ''b'' \<mapsto> JInt 2]\<rparr>) \<and>
   [''a'' \<mapsto> JInt 1, ''b'' \<mapsto> JInt 2] ''b'' = Some (JInt 2) \<and>
   Site_combined_config
     ((Site_init ''site1'' [''sites'', ''site1''])
        \<lparr>Site_combined_config := Some [''a'' \<mapsto> JInt 1, ''b'' \<mapsto> JInt 2]\<rparr>) =
     Some [''a'' \<mapsto> JInt 1, ''b'' \<mapsto> JInt 2] \<and>
   Site_config False False (Inr [''b'' \<mapsto> JInt 2])
       (Inr [''a'' \<mapsto> JInt 1, ''b'' \<mapsto> JInt 1])
       ((Site_init ''site1'' [''sites'', ''site1''])
          \<lparr>Site_combined_config := Some [''a'' \<mapsto> JInt 1, ''b'' \<mapsto> JInt 2]\<rparr>) =
     (Inr [''a'' \<mapsto> JInt 1, ''b'' \<mapsto> JInt 2],
      (Site_init ''site1'' [''sites'', ''site1''])
        \<lparr>Site_combined_config := Some [''a'' \<mapsto> JInt 1, ''b'' \<mapsto> JInt 2]\<rparr>)"
proof -
  let ?s = "Site_init ''site1'' [''sites'', ''site1'']"
  let ?A = "[''a'' \<mapsto> JInt 1, ''b'' \<mapsto> JInt 1]"
  let ?B = "[''b'' \<mapsto> JInt 2]"
  let ?c = "[''a'' \<mapsto> JInt 1, ''b'' \<mapsto> JInt 2]"
  have m: "?A ++ ?B = ?c"
    by simp
  have h1: "Site_combined_config ?s = None"
    by (simp add: Site_init_def)
  have h2: "Site_combined_config (?s\<lparr>Site_combined_config := Some ?c\<rparr>) = Some ?c"
    by simp
  from merged_config_overlay_on_reload [of ?s False False ?B ?A "''b''" ?c]
    merged_config_overlay_on_reload [of "?s\<lparr>Site_combined_config := Some ?c\<rparr>" False False ?B ?A "''b''" ?c]
    h1 h2 m
  show ?thesis
    by simp
qed

text \<open>The full scan stores one tenant per qualifying directory, in the order of the listing.\<close>

lemma attrs_update_twice:
  "(s\<lparr>Sites_attrs := (Sites_attrs s)(k \<mapsto> a)\<rparr>)\<lparr>Sites_attrs :=
      (Sites_attrs (s\<lparr>Sites_attrs := (Sites_attrs s)(k \<mapsto> a)\<rparr>))(k \<mapsto> b)\<rparr> =
   s\<lparr>Sites_attrs := (Sites_attrs s)(k \<mapsto> b)\<rparr>"
  by simp

lemma process_all_distinct:
  assumes "Sites_attrs s ''_Sites__sites'' = Some acc"
    and "distinct (map path_name ps)"
    and "fst ` set acc \<inter> path_name ` set ps = {}"
  shows "process_all root s ps =
         Inr (s\<lparr>Sites_attrs := (Sites_attrs s)(''_Sites__sites'' \<mapsto>
                acc @ map (\<lambda>p. (path_name p, Site_init (path_name p) p))
                          (filter (\<lambda>p. is_dir root p \<and>
                                       path_exists root (p @ [''site_config.json''])) ps))\<rparr>)"
  using assms
proof (induction ps arbitrary: s acc)
  case Nil
  then have "(Sites_attrs s)(''_Sites__sites'' \<mapsto> acc) = Sites_attrs s"
    by (simp add: fun_upd_idem)
  then show ?case by simp
next
  case (Cons p ps)
  let ?Q = "\<lambda>p. is_dir root p \<and> path_exists root (p @ [''site_config.json''])"
  from Cons.prems have d: "distinct (map path_name ps)"
    by simp
  show ?case
  proof (cases "?Q p")
    case False
    then have "process root s p = Inr s"
      by (auto simp: process_def)
    then have unf: "process_all root s (p # ps) = process_all root s ps"
      by simp
    from False have f: "filter ?Q (p # ps) = filter ?Q ps"
      by auto
    from Cons.prems have i: "fst ` set acc \<inter> path_name ` set ps = {}"
      by auto
    show ?thesis
      unfolding unf f by (rule Cons.IH [OF Cons.prems(1) d i])
  next
    case True
    let ?v = "Site_init (path_name p) p"
    let ?s = "s\<lparr>Sites_attrs := (Sites_attrs s)(''_Sites__sites'' \<mapsto> acc @ [(path_name p, ?v)])\<rparr>"
    from Cons.prems have notin: "path_name p \<notin> fst ` set acc"
      by auto
    with True Cons.prems(1) have "process root s p = Inr ?s"
      by (simp add: process_def setitem_sites_def update_new_key)
    then have unf: "process_all root s (p # ps) = process_all root ?s ps"
      by simp
    from True have f: "filter ?Q (p # ps) = p # filter ?Q ps"
      by simp
    have a: "Sites_attrs ?s ''_Sites__sites'' = Some (acc @ [(path_name p, ?v)])"
      by simp
    from Cons.prems have i: "fst ` set (acc @ [(path_name p, ?v)]) \<inter> path_name ` set ps = {}"
      by auto
    show ?thesis
      unfolding unf f Cons.IH [OF a d i]
      by (simp only: attrs_update_twice append_assoc append_Cons append_Nil list.map)
  qed
qed

text \<open>
  C5: scoped to the all-sentinel, iteration yields exactly one tenant for every entry of
  the tenant root that is a directory and has an entry named \<^verbatim>\<open>site_config.json\<close>
  (the test of the source is \<^verbatim>\<open>Path.exists\<close>), in the order of the listing, each named
  after its directory, and nothing else. The registry is any object whose attribute
  \<^verbatim>\<open>__sites\<close> (the unmangled name, which no method assigns) is unset; the tenant root is a
  directory, whose entries have distinct names.
\<close>

theorem iter_all_enumerates_tenant_directories:
  assumes "\<not> hasattr (Sites_attrs s) ''__sites''"
    and "Sites_site_name s = Some SCOPE_ALL_SITES"
    and "lookup root (Sites_path s) = Some (Dir es)"
    and "distinct (map fst es)"
  shows "fst (Sites_iter root s) =
         Inr (map (\<lambda>n. Site_init n (Sites_path s @ [n]))
               (filter (\<lambda>n. is_dir root (Sites_path s @ [n]) \<and>
                            path_exists root (Sites_path s @ [n, ''site_config.json'']))
                  (map fst es)))"
proof -
  let ?P = "Sites_path s"
  let ?ps = "map (\<lambda>e. ?P @ [fst e]) es"
  let ?s1 = "s\<lparr>Sites_attrs := (Sites_attrs s)(''_Sites__sites'' \<mapsto> [])\<rparr>"
  let ?d = "map (\<lambda>n. (n, Site_init n (?P @ [n])))
              (filter (\<lambda>n. is_dir root (?P @ [n]) \<and>
                           path_exists root ((?P @ [n]) @ [''site_config.json'']))
                (map fst es))"
  from assms(3) have it: "iterdir root ?P = Inr ?ps"
    by (simp add: iterdir_def)
  have a: "Sites_attrs ?s1 ''_Sites__sites'' = Some []"
    by simp
  from assms(4) have d: "distinct (map path_name ?ps)"
    by (simp only: listing_names)
  have pa: "process_all root ?s1 ?ps =
      Inr (?s1\<lparr>Sites_attrs := (Sites_attrs ?s1)(''_Sites__sites'' \<mapsto> ?d)\<rparr>)"
    using process_all_distinct [OF a d, of root] by (simp add: listing_filter)
  have "Sites_sites root s =
      (Inr ?d, ?s1\<lparr>Sites_attrs := (Sites_attrs ?s1)(''_Sites__sites'' \<mapsto> ?d)\<rparr>)"
    using assms(1,2) it pa by (simp add: Sites_sites_def Let_def return_sites_def)
  with assms(2) show ?thesis
    by (simp add: Sites_iter_def comp_def)
qed

text \<open>
  C5 at \<open>bench1\<close>: of the five entries of \<^verbatim>\<open>sites\<close>, the tenants are \<^verbatim>\<open>site1\<close> and
  \<^verbatim>\<open>site2\<close>; the two files and the directory \<^verbatim>\<open>assets\<close> (no marker) are left out.
\<close>

theorem iter_all_enumerates_tenant_directories_witness:
  "\<not> hasattr (Sites_attrs (Sites_init [''sites''] (Some SCOPE_ALL_SITES) None)) ''__sites'' \<and>
   Sites_site_name (Sites_init [''sites''] (Some SCOPE_ALL_SITES) None) = Some SCOPE_ALL_SITES \<and>
   lookup bench1 (Sites_path (Sites_init [''sites''] (Some SCOPE_ALL_SITES) None)) =
     Some (Dir sites_listing) \<and>
   distinct (map fst sites_listing) \<and>
   fst (Sites_iter bench1 (Sites_init [''sites''] (Some SCOPE_ALL_SITES) None)) =
     Inr [Site_init ''site1'' [''sites'', ''site1''], Site_init ''site2'' [''sites'', ''site2'']]"
proof -
  let ?s = "Sites_init [''sites''] (Some SCOPE_ALL_SITES) None"
  have h1: "\<not> hasattr (Sites_attrs ?s) ''__sites''"
    by (simp add: Sites_init_def hasattr_def)
  have h2: "Sites_site_name ?s = Some SCOPE_ALL_SITES"
    by (simp add: Sites_init_def truthy_def SCOPE_ALL_SITES_def)
  have h3: "lookup bench1 (Sites_path ?s) = Some (Dir sites_listing)"
    by (simp add: Sites_init_def bench1_def lookup_def)
  have h4: "distinct (map fst sites_listing)"
    by (simp add: sites_listing_def)
  have "Sites_path ?s = [''sites'']"
    by (simp add: Sites_init_def)
  with iter_all_enumerates_tenant_directories [OF h1 h2 h3 h4] h1 h2 h3 h4
  show ?thesis
    by (simp add: fs_defs)
qed

text \<open>
  C4 on a registry that was just constructed: \<^verbatim>\<open>scope("site1")\<close> raises at
  \<^verbatim>\<open>del self.__sites\<close>, because the attribute \<^verbatim>\<open>_Sites__sites\<close> does not exist before the
  first read of \<^verbatim>\<open>_sites\<close>; the active identifier is not set to \<^verbatim>\<open>site1\<close> (the registry is
  as before the call).
\<close>

theorem scope_raises_before_first_read:
  "Sites_scope bench1 (Sites_init [''sites''] None None) (Some ''site1'') =
     (Inl AttributeError, Sites_init [''sites''] None None) \<and>
   Sites_site_name (Sites_init [''sites''] None None) = None"
  by (simp add: sites_defs)

text \<open>
  C6, the end-to-end run on \<open>bench1\<close>, where \<^verbatim>\<open>sites/site1/site_config.json\<close> exists: the
  unscoped registry raises \<^verbatim>\<open>BenchNotScopedError\<close> from \<^verbatim>\<open>site\<close>, the following
  \<^verbatim>\<open>scope("site1")\<close> raises \<^verbatim>\<open>AttributeError\<close>, and \<^verbatim>\<open>site\<close> then still raises
  \<^verbatim>\<open>BenchNotScopedError\<close> instead of returning the tenant.
\<close>

theorem site_after_scope_on_new_registry:
  "is_dir bench1 [''sites'', ''site1''] \<and>
   path_exists bench1 [''sites'', ''site1'', ''site_config.json''] \<and>
   Sites_site bench1 (Sites_init [''sites''] None None) =
     (Inl BenchNotScopedError, Sites_init [''sites''] None None) \<and>
   (case Sites_scope bench1 (Sites_init [''sites''] None None) (Some ''site1'') of
      (r, self1) \<Rightarrow>
        r = Inl AttributeError \<and> fst (Sites_site bench1 self1) = Inl BenchNotScopedError)"
  by (simp add: sites_defs fs_defs)

text \<open>
  C7 on a registry scoped to \<^verbatim>\<open>site1\<close>: a lookup fills the cache, \<^verbatim>\<open>remove_site("site1")\<close>
  empties it, and the next lookup and the next iteration return \<^verbatim>\<open>site1\<close> again, because
  \<^verbatim>\<open>_sites\<close> rebuilds the mapping from the directory on every read.
\<close>

theorem remove_site_undone_by_next_read:
  "(case Sites_getitem bench1 (Sites_init [''sites''] (Some ''site1'') None) ''site1'' of
      (r1, self1) \<Rightarrow>
        map_sum id Site_name r1 = Inr ''site1'' \<and>
        map_option (map fst) (Sites_attrs self1 ''_Sites__sites'') = Some [''site1''] \<and>
        (case Sites_remove_site self1 ''site1'' of
           (r2, self2) \<Rightarrow>
             r2 = Inr () \<and>
             Sites_attrs self2 ''_Sites__sites'' = Some [] \<and>
             map_sum id Site_name (fst (Sites_getitem bench1 self2 ''site1'')) = Inr ''site1'' \<and>
             map_sum id (map Site_name) (fst (Sites_iter bench1 self2)) = Inr [''site1'']))"
  by (simp add: sites_defs fs_defs)

text \<open>
  C8 on a registry that was just constructed (unscoped): \<^verbatim>\<open>add_site("site3")\<close> creates the
  five directories and then raises at \<^verbatim>\<open>self.__sites[site_name] = ...\<close>, because the attribute
  \<^verbatim>\<open>_Sites__sites\<close> does not exist; no tenant is inserted.
\<close>

theorem add_site_raises_before_first_read:
  "(case Sites_add_site bench1 (Sites_init [''sites''] None None) ''site3'' of
      (r, root', self') \<Rightarrow>
        r = Inl AttributeError \<and>
        is_dir root' [''sites'', ''site3'', ''public'', ''files''] \<and>
        is_dir root' [''sites'', ''site3'', ''private'', ''backups''] \<and>
        is_dir root' [''sites'', ''site3'', ''private'', ''files''] \<and>
        is_dir root' [''sites'', ''site3'', ''locks''] \<and>
        is_dir root' [''sites'', ''site3'', ''logs''] \<and>
        Sites_attrs self' ''_Sites__sites'' = None)"
  by (simp add: sites_defs fs_defs)

text \<open>
  C10 on a registry that was just constructed: \<^verbatim>\<open>scope(SCOPE_ALL_SITES)\<close> raises
  \<^verbatim>\<open>AttributeError\<close> at \<^verbatim>\<open>del self.__sites\<close>, not \<^verbatim>\<open>BenchNotScopedError\<close>; the identifier
  stays unset, and iteration afterwards raises \<^verbatim>\<open>BenchNotScopedError\<close> instead of scanning.
\<close>

theorem scope_all_raises_before_first_read:
  "(case Sites_scope bench1 (Sites_init [''sites''] None None) (Some SCOPE_ALL_SITES) of
      (r, self1) \<Rightarrow>
        r = Inl AttributeError \<and> Sites_site_name self1 = None \<and>
        fst (Sites_iter bench1 self1) = Inl BenchNotScopedError)"
  by (simp add: sites_defs)

text \<open>
  Once \<^verbatim>\<open>_sites\<close> has been read, so that the attribute exists, the same call does what C10
  describes: it raises \<^verbatim>\<open>BenchNotScopedError\<close> after it deleted the mapping and set the
  identifier, and iteration then scans all tenants.
\<close>

lemma scope_all_after_first_read:
  "(case Sites_sites bench1 (Sites_init [''sites''] None None) of
      (r0, self0) \<Rightarrow>
        (case Sites_scope bench1 self0 (Some SCOPE_ALL_SITES) of
           (r, self1) \<Rightarrow>
             r = Inl BenchNotScopedError \<and> Sites_site_name self1 = Some SCOPE_ALL_SITES \<and>
             Sites_attrs self1 ''_Sites__sites'' = None \<and>
             map_sum id (map Site_name) (fst (Sites_iter bench1 self1)) =
               Inr [''site1'', ''site2'']))"
  by (simp add: sites_defs fs_defs)

end
